theory Spec2Isabelle
  imports Main "HOL-Library.Char_ord" "HOL-Library.List_Lexorder"
begin

section \<open>The courier server (server.go)\<close>

text \<open>
  A shallow embedding of \<^verbatim>\<open>src/server.go\<close>: the \<^verbatim>\<open>server\<close> struct is a record, its
  methods are functions that take the record and return it updated, and every way a call
  can end (a return, a runtime panic, \<^verbatim>\<open>log.Fatal\<close>) is a value.

  Strings are byte lists, compared bytewise as Go compares strings. Case mapping and
  the width of \<^verbatim>\<open>%-20s\<close> are modelled for ASCII text, where a byte is a rune.
\<close>

subsection \<open>Values\<close>

text \<open>Go's \<^verbatim>\<open>error\<close>, by its message; a nil error is \<open>None\<close> of \<open>error option\<close>.\<close>

datatype error = Error string

text \<open>
  How a call ends: it returns, it panics (a Go runtime panic, by its message), the process
  exits (\<^verbatim>\<open>log.Fatal\<close>), or it blocks for ever.
\<close>

datatype 'a outcome = Returned 'a | Panicked string | Exited error | Blocked

datatype ChannelUUID = ChannelUUID string

text \<open>
  The accessors of the \<^verbatim>\<open>ChannelHandler\<close> interface that server.go calls. Its third
  method, \<^verbatim>\<open>Initialize(Server)\<close>, is kept beside the handler (see \<open>registered\<close> below),
  since it takes the server.
\<close>

record ChannelHandler =
  ChannelType :: string
  ChannelName :: string

text \<open>The fields of \<^verbatim>\<open>config.Courier\<close> that server.go reads. A Go slice may be nil: \<open>None\<close>.\<close>

record Courier =
  Port :: int
  Version :: string
  IncludeChannels :: "string list option"
  ExcludeChannels :: "string list option"

text \<open>
  An HTTP request, as far as the dispatcher reads it: the URL parameters chi bound.
  \<^verbatim>\<open>chi.URLParam\<close> returns the value bound to the key, or the empty string.
\<close>

record request =
  URLParams :: "string \<rightharpoonup> string"

definition URLParam :: "request \<Rightarrow> string \<Rightarrow> string" where
  "URLParam r key = (case URLParams r key of Some v \<Rightarrow> v | None \<Rightarrow> [])"

text \<open>
  What serving a request does, in order: \<^verbatim>\<open>WriteError(w, r, err)\<close>, the call
  \<^verbatim>\<open>handlerFunc(channel, w, r)\<close> of an adapter's action handler, and \<^verbatim>\<open>w.Write\<close> of a body.
  The type \<open>'c\<close> is the \<^verbatim>\<open>Channel\<close> the backend hands out.
\<close>

datatype 'c effect = WriteError error | HandlerFunc 'c request | Write string

type_synonym 'c ChannelActionHandlerFunc = "'c \<Rightarrow> request \<Rightarrow> error option"

text \<open>
  The backend, as far as a request reads it. What \<^verbatim>\<open>backend.Start()\<close> and
  \<^verbatim>\<open>backend.Stop()\<close> return is an argument of \<open>Start\<close> and \<open>Stop\<close> below.
\<close>

record 'c Backend =
  GetChannel :: "string \<Rightarrow> ChannelUUID \<Rightarrow> error + 'c"
  Health :: string

datatype http_method = GET | POST

text \<open>
  The handlers mounted on a router. Both are closures over the server pointer in the
  source, so a router entry names the closure and \<open>serve\<close> below runs it on the server
  of the moment.
\<close>

datatype 'c handler = HandleIndex | ChannelFunction ChannelHandler "'c ChannelActionHandlerFunc"

text \<open>
  A \<^verbatim>\<open>chi.Mux\<close>, as the list of what was registered on it, in order. The only router
  mounted is \<^verbatim>\<open>chanRouter\<close>, so \<open>Mount prefix\<close> stands for \<^verbatim>\<open>Mount(prefix, chanRouter)\<close>.
\<close>

datatype 'c mux_entry = Use string | Mount string | Handle http_method string "'c handler"

record http_Server =
  Addr :: string
  ReadTimeout :: nat
  WriteTimeout :: nat
  inShutdown :: bool

datatype chan = Open | Closed

text \<open>
  The \<^verbatim>\<open>server\<close> struct. \<^verbatim>\<open>waitGroup\<close> has no field here: its counter is moved by the
  background tasks only (\<^verbatim>\<open>Add(1)\<close> and \<^verbatim>\<open>Done()\<close> run inside the goroutine of
  \<^verbatim>\<open>Start\<close>), and the server itself only waits on it.
\<close>

record 'c server =
  backend :: "'c Backend"
  httpServer :: "http_Server option"
  router :: "'c mux_entry list"
  chanRouter :: "'c mux_entry list"
  config :: Courier
  stopChan :: chan
  stopped :: bool
  routes :: "string list"

text \<open>
  A registered adapter: the handler and its \<^verbatim>\<open>Initialize\<close> hook, which returns an error
  or has registered the adapter's routes on the server.
\<close>

type_synonym 'c registered = "ChannelHandler \<times> ('c server \<Rightarrow> error + 'c server)"

text \<open>The package variable \<^verbatim>\<open>activeHandlers\<close>, a map from ChannelType to handler.\<close>

type_synonym activeHandlers = "string \<rightharpoonup> ChannelHandler"

text \<open>
  The calls a method makes on its collaborators and on the shared primitives, in order.
\<close>

datatype call =
  BackendStart | StartSpoolFlushers | GoListenAndServe
  | BackendStop | CloseStopChan | HTTPShutdown | WaitGroupWait

record 's run =
  ended :: "error option outcome"
  final :: 's
  performed :: "call list"

subsection \<open>Library functions\<close>

text \<open>\<^verbatim>\<open>strings.ToLower\<close>, on ASCII.\<close>

definition toLowerChar :: "char \<Rightarrow> char" where
  "toLowerChar c =
     (if CHR ''A'' \<le> c \<and> c \<le> CHR ''Z'' then char_of (of_char c + (32::nat)) else c)"

definition ToLower :: "string \<Rightarrow> string" where
  "ToLower s = map toLowerChar s"

text \<open>\<^verbatim>\<open>%-20s\<close> and its like: the string, then spaces up to the width.\<close>

definition padRight :: "nat \<Rightarrow> string \<Rightarrow> string" where
  "padRight n s = s @ replicate (n - length s) (CHR '' '')"

text \<open>\<^verbatim>\<open>%d\<close>.\<close>

fun digits :: "nat \<Rightarrow> string" where
  "digits n =
     (if n < 10 then [''0123456789'' ! n] else digits (n div 10) @ [''0123456789'' ! (n mod 10)])"

definition formatInt :: "int \<Rightarrow> string" where
  "formatInt i = (if i < 0 then ''-'' @ digits (nat (- i)) else digits (nat i))"

text \<open>\<^verbatim>\<open>strings.Join\<close>.\<close>

fun Join :: "string list \<Rightarrow> string \<Rightarrow> string" where
  "Join [] sep = []"
| "Join [x] sep = x"
| "Join (x # y # ys) sep = x @ sep @ Join (y # ys) sep"

text \<open>
  Modelled from the spec: \<^verbatim>\<open>utils.StringArrayContains\<close> is not in server.go; the activation
  policy of the spec reads it as membership ("its ChannelType is a member").
\<close>

definition StringArrayContains :: "string list \<Rightarrow> string \<Rightarrow> bool" where
  "StringArrayContains arr s \<longleftrightarrow> s \<in> set arr"

subsection \<open>NewServer\<close>

definition NewServer :: "Courier \<Rightarrow> 'c Backend \<Rightarrow> 'c server" where
  "NewServer cfg be =
     \<lparr>backend = be,
      httpServer = None,
      router = [Use ''RequestID'', Use ''RequestLogger'', Use ''Recoverer'', Mount ''/c/''],
      chanRouter = [],
      config = cfg,
      stopChan = Open,
      stopped = False,
      routes = []\<rparr>"

subsection \<open>AddChannelRoute\<close>

text \<open>The two \<^verbatim>\<open>fmt.Sprintf\<close> of \<^verbatim>\<open>AddChannelRoute\<close>: the path, and the line of the route listing.\<close>

definition routePath :: "string \<Rightarrow> string \<Rightarrow> string" where
  "routePath channelType action = ''/'' @ channelType @ ''/:uuid/'' @ action @ ''/''"

definition routeHelp :: "string \<Rightarrow> string \<Rightarrow> string \<Rightarrow> string" where
  "routeHelp path name action = padRight 20 (''/c'' @ path) @ '' - '' @ name @ '' '' @ action"

definition AddChannelRoute ::
  "'c server \<Rightarrow> ChannelHandler \<Rightarrow> string \<Rightarrow> string \<Rightarrow> 'c ChannelActionHandlerFunc
    \<Rightarrow> error option \<times> 'c server" where
  "AddChannelRoute s handler method action handlerFunc =
     (let method = ToLower method;
          channelType = ToLower (ChannelType handler);
          path = routePath channelType action;
          wrapped = ChannelFunction handler handlerFunc;
          help = routeHelp path (ChannelName handler) action
      in if method = ''get'' then
           (None, s\<lparr>chanRouter := chanRouter s @ [Handle GET path wrapped],
                    routes := routes s @ [help]\<rparr>)
         else if method = ''post'' then
           (None, s\<lparr>chanRouter := chanRouter s @ [Handle POST path wrapped],
                    routes := routes s @ [help]\<rparr>)
         else (Some (Error (''unsupported method: '' @ method)), s))"

text \<open>
  The path and the listing line that \<^verbatim>\<open>AddChannelRoute\<close> builds for an adapter's action.
\<close>

definition handlerPath :: "ChannelHandler \<Rightarrow> string \<Rightarrow> string" where
  "handlerPath handler action = routePath (ToLower (ChannelType handler)) action"

definition helpLine :: "ChannelHandler \<Rightarrow> string \<Rightarrow> string" where
  "helpLine handler action = routeHelp (handlerPath handler action) (ChannelName handler) action"

subsection \<open>initializeChannelHandlers\<close>

text \<open>The condition of line 197, on the two lists the pass read from the configuration.\<close>

definition activates :: "string list option \<Rightarrow> string list option \<Rightarrow> string \<Rightarrow> bool" where
  "activates includes excludes channelType \<longleftrightarrow>
     (case includes of None \<Rightarrow> True | Some inc \<Rightarrow> StringArrayContains inc channelType) \<and>
     (case excludes of None \<Rightarrow> True | Some exc \<Rightarrow> \<not> StringArrayContains exc channelType)"

text \<open>
  The loop over \<^verbatim>\<open>registeredHandlers\<close>, in the order the range yields them. An error of
  a hook ends the process (\<^verbatim>\<open>log.Fatal\<close>): \<open>Inl\<close>. The two lists are read once, before the
  loop.
\<close>

fun initializeLoop ::
  "string list option \<Rightarrow> string list option \<Rightarrow> 'c registered list \<Rightarrow> activeHandlers \<Rightarrow> 'c server
    \<Rightarrow> error + ('c server \<times> activeHandlers)" where
  "initializeLoop includes excludes [] active s = Inr (s, active)"
| "initializeLoop includes excludes ((handler, Initialize) # rest) active s =
     (if activates includes excludes (ChannelType handler) then
        (case Initialize s of
           Inl err \<Rightarrow> Inl err
         | Inr s' \<Rightarrow> initializeLoop includes excludes rest (active(ChannelType handler \<mapsto> handler)) s')
      else initializeLoop includes excludes rest active s)"

text \<open>
  The pass: the loop, then \<^verbatim>\<open>sort.Strings(s.routes)\<close>. A list of strings has one sorted
  permutation, which \<open>sort\<close> returns.
\<close>

definition initializeChannelHandlers ::
  "'c registered list \<Rightarrow> activeHandlers \<Rightarrow> 'c server \<Rightarrow> error + ('c server \<times> activeHandlers)" where
  "initializeChannelHandlers registeredHandlers active s =
     (case initializeLoop (IncludeChannels (config s)) (ExcludeChannels (config s))
             registeredHandlers active s of
        Inl err \<Rightarrow> Inl err
      | Inr (s', active') \<Rightarrow> Inr (s'\<lparr>routes := sort (routes s')\<rparr>, active'))"

subsection \<open>Start and Stop\<close>

text \<open>
  \<open>backendStart\<close> is what \<^verbatim>\<open>s.backend.Start()\<close> returns. \<^verbatim>\<open>startSpoolFlushers\<close> is not in
  server.go; the model records the call. The serving goroutine is recorded as
  \<open>GoListenAndServe\<close>: it runs beside the caller. After \<^verbatim>\<open>log.Fatal\<close> the process is gone, and
  \<open>final\<close> is the server as the pass found it.
\<close>

definition Start ::
  "error option \<Rightarrow> 'c registered list \<Rightarrow> activeHandlers \<Rightarrow> 'c server
    \<Rightarrow> ('c server \<times> activeHandlers) run" where
  "Start backendStart registeredHandlers active s =
     (case backendStart of
        Some err \<Rightarrow> \<lparr>ended = Returned (Some err), final = (s, active), performed = [BackendStart]\<rparr>
      | None \<Rightarrow>
          (let s1 = s\<lparr>router := router s @ [Handle GET ''/'' HandleIndex]\<rparr> in
           case initializeChannelHandlers registeredHandlers active s1 of
             Inl err \<Rightarrow>
               \<lparr>ended = Exited err, final = (s1, active),
                performed = [BackendStart, StartSpoolFlushers]\<rparr>
           | Inr (s2, active') \<Rightarrow>
               \<lparr>ended = Returned None,
                final = (s2\<lparr>httpServer := Some \<lparr>Addr = '':'' @ formatInt (Port (config s2)),
                                                ReadTimeout = 15, WriteTimeout = 15,
                                                inShutdown = False\<rparr>\<rparr>, active'),
                performed = [BackendStart, StartSpoolFlushers, GoListenAndServe]\<rparr>))"

text \<open>
  How \<^verbatim>\<open>s.httpServer.Shutdown(nil)\<close> ends. The context it is given is nil. net/http closes
  the listeners and returns when every connection is idle; while one is not, it reads
  \<^verbatim>\<open>ctx.Done()\<close>, which on a nil context is a nil pointer dereference. So the call returns
  an error or nil (the error is logged only), or it panics.
\<close>

datatype shutdown = ShutdownReturns "error option" | ShutdownPanics

text \<open>
  What the collaborators answer during one \<^verbatim>\<open>Stop\<close>: the error of \<^verbatim>\<open>s.backend.Stop()\<close>,
  how \<^verbatim>\<open>s.httpServer.Shutdown(nil)\<close> ends, and whether the wait group's counter comes to
  zero, so that \<^verbatim>\<open>s.waitGroup.Wait()\<close> returns.
\<close>

record stop_env =
  backendStop :: "error option"
  httpShutdown :: shutdown
  waitGroupDrains :: bool

definition Stop :: "stop_env \<Rightarrow> 'c server \<Rightarrow> 'c server run" where
  "Stop env s =
     (case backendStop env of
        Some err \<Rightarrow> \<lparr>ended = Returned (Some err), final = s, performed = [BackendStop]\<rparr>
      | None \<Rightarrow>
          (let s1 = s\<lparr>stopped := True\<rparr> in
           case stopChan s1 of
             Closed \<Rightarrow>
               \<lparr>ended = Panicked ''close of closed channel'', final = s1,
                performed = [BackendStop, CloseStopChan]\<rparr>
           | Open \<Rightarrow>
               (let s2 = s1\<lparr>stopChan := Closed\<rparr> in
                case httpServer s2 of
                  None \<Rightarrow>
                    \<lparr>ended = Panicked ''invalid memory address or nil pointer dereference'',
                     final = s2, performed = [BackendStop, CloseStopChan, HTTPShutdown]\<rparr>
                | Some h \<Rightarrow>
                    (let s3 = s2\<lparr>httpServer := Some (h\<lparr>inShutdown := True\<rparr>)\<rparr> in
                     case httpShutdown env of
                       ShutdownPanics \<Rightarrow>
                         \<lparr>ended = Panicked ''invalid memory address or nil pointer dereference'',
                          final = s3, performed = [BackendStop, CloseStopChan, HTTPShutdown]\<rparr>
                     | ShutdownReturns logged \<Rightarrow>
                         if waitGroupDrains env then
                           \<lparr>ended = Returned None, final = s3,
                            performed = [BackendStop, CloseStopChan, HTTPShutdown, WaitGroupWait]\<rparr>
                         else
                           \<lparr>ended = Blocked, final = s3,
                            performed = [BackendStop, CloseStopChan, HTTPShutdown, WaitGroupWait]\<rparr>))))"

subsection \<open>Serving requests\<close>

text \<open>
  \<^verbatim>\<open>NewChannelUUID\<close> is not in server.go: it is an argument, a parser that returns the
  UUID or an error.
\<close>

definition channelFunctionWrapper ::
  "(string \<Rightarrow> error + ChannelUUID) \<Rightarrow> 'c server \<Rightarrow> ChannelHandler \<Rightarrow> 'c ChannelActionHandlerFunc
    \<Rightarrow> request \<Rightarrow> 'c effect list" where
  "channelFunctionWrapper NewChannelUUID s handler handlerFunc r =
     (case NewChannelUUID (URLParam r ''uuid'') of
        Inl err \<Rightarrow> [WriteError err]
      | Inr uuid \<Rightarrow>
          (case GetChannel (backend s) (ChannelType handler) uuid of
             Inl err \<Rightarrow> [WriteError err]
           | Inr channel \<Rightarrow>
               (case handlerFunc channel r of
                  Some err \<Rightarrow> [HandlerFunc channel r, WriteError err]
                | None \<Rightarrow> [HandlerFunc channel r])))"

definition splash :: string where
  "splash =
     [CHR 0x0A] @
     '' ____________                   _____             '' @ [CHR 0x0A] @
     ''   ___  ____/_________  ___________(_)____________'' @ [CHR 0x0A] @
     ''    _  /  __  __ '' @ [CHR 0x5C] @ ''  / / /_  ___/_  /_  _ '' @ [CHR 0x5C] @ ''_  ___/'' @ [CHR 0x0A] @
     ''    / /__  / /_/ / /_/ /_  /   _  / /  __/  /    '' @ [CHR 0x0A] @
     ''    '' @ [CHR 0x5C] @ ''____/ '' @ [CHR 0x5C] @ ''____/'' @ [CHR 0x5C] @ ''__,_/ /_/    /_/  '' @ [CHR 0x5C] @ ''___//_/ v''"

definition handleIndex :: "'c server \<Rightarrow> request \<Rightarrow> 'c effect list" where
  "handleIndex s r =
     [Write (''<title>courier</title><body><pre>'' @ [CHR 0x0A] @ splash @ Version (config s)
             @ Health (backend s) @ [CHR 0x0A, CHR 0x0A] @ Join (routes s) [CHR 0x0A]
             @ ''</pre></body>'')]"

definition serve ::
  "(string \<Rightarrow> error + ChannelUUID) \<Rightarrow> 'c server \<Rightarrow> 'c handler \<Rightarrow> request \<Rightarrow> 'c effect list" where
  "serve NewChannelUUID s h r =
     (case h of
        HandleIndex \<Rightarrow> handleIndex s r
      | ChannelFunction handler handlerFunc \<Rightarrow>
          channelFunctionWrapper NewChannelUUID s handler handlerFunc r)"

subsection \<open>A small deployment\<close>

text \<open>
  Modelled from the spec: the adapters are not in server.go. An adapter's initialization
  hook "registers its routes against the Dispatcher", one \<^verbatim>\<open>AddChannelRoute\<close> for each
  (method, action, handler function) it declares, and returns the first error.
\<close>

fun adapterInitialize ::
  "ChannelHandler \<Rightarrow> (string \<times> string \<times> 'c ChannelActionHandlerFunc) list
    \<Rightarrow> 'c server \<Rightarrow> error + 'c server" where
  "adapterInitialize handler [] s = Inr s"
| "adapterInitialize handler ((method, action, handlerFunc) # rest) s =
     (case AddChannelRoute s handler method action handlerFunc of
        (Some err, s') \<Rightarrow> Inl err
      | (None, s') \<Rightarrow> adapterInitialize handler rest s')"

text \<open>A configuration, a backend that knows one channel, a UUID parser and two adapters.\<close>

definition exampleConfig :: Courier where
  "exampleConfig = \<lparr>Port = 8080, Version = ''1.0'', IncludeChannels = None, ExcludeChannels = None\<rparr>"

definition exampleBackend :: "string Backend" where
  "exampleBackend =
     \<lparr>GetChannel = (\<lambda>channelType uuid.
        if channelType = ''X'' \<and> uuid = ChannelUUID ''dbc126ed'' then Inr ''channel one''
        else Inl (Error ''channel not found'')),
      Health = ''healthy''\<rparr>"

definition exampleNewChannelUUID :: "string \<Rightarrow> error + ChannelUUID" where
  "exampleNewChannelUUID u =
     (if length u = 8 then Inr (ChannelUUID u) else Inl (Error ''invalid UUID''))"

definition accept :: "string ChannelActionHandlerFunc" where
  "accept channel r = None"

definition adapterX :: ChannelHandler where
  "adapterX = \<lparr>ChannelType = ''X'', ChannelName = ''X Adapter''\<rparr>"

definition adapterY :: ChannelHandler where
  "adapterY = \<lparr>ChannelType = ''Y'', ChannelName = ''Y Adapter''\<rparr>"

definition registeredX :: "string registered" where
  "registeredX = (adapterX, adapterInitialize adapterX [(''GET'', ''receive'', accept)])"

definition registeredY :: "string registered" where
  "registeredY = (adapterY, adapterInitialize adapterY [(''POST'', ''status'', accept)])"

text \<open>The server after \<^verbatim>\<open>NewServer\<close> and a \<^verbatim>\<open>Start\<close> whose backend started.\<close>

definition startedServer :: "string server" where
  "startedServer =
     fst (final (Start None [registeredX, registeredY] Map.empty (NewServer exampleConfig exampleBackend)))"



text \<open>
  An adapter with two actions: "a", and "a" followed by a slash and a tab (byte 9).
\<close>

definition actionWithTab :: string where
  "actionWithTab = ''a/'' @ [CHR 0x09]"

definition registeredTab :: "string registered" where
  "registeredTab =
     (adapterX, adapterInitialize adapterX [(''GET'', ''a'', accept), (''GET'', actionWithTab, accept)])"

text \<open>A \<^verbatim>\<open>Stop\<close> whose backend stops cleanly, and one whose backend fails.\<close>

definition stopSucceeds :: stop_env where
  "stopSucceeds =
     \<lparr>backendStop = None, httpShutdown = ShutdownReturns None, waitGroupDrains = True\<rparr>"

definition stopFails :: stop_env where
  "stopFails =
     \<lparr>backendStop = Some (Error ''backend stop failed''),
      httpShutdown = ShutdownReturns None, waitGroupDrains = False\<rparr>"

text \<open>Three requests: a malformed UUID, a UUID the backend does not know, and a known one.\<close>

definition malformedRequest :: request where
  "malformedRequest = \<lparr>URLParams = [''uuid'' \<mapsto> ''nope'']\<rparr>"

definition unknownRequest :: request where
  "unknownRequest = \<lparr>URLParams = [''uuid'' \<mapsto> ''00000000'']\<rparr>"

definition knownRequest :: request where
  "knownRequest = \<lparr>URLParams = [''uuid'' \<mapsto> ''dbc126ed'']\<rparr>"

subsection \<open>The activation policy as the specification words it\<close>


subsection \<open>Initializing a list of adapters\<close>


section \<open>Auxiliary facts\<close>

subsection \<open>Evaluating the small deployment\<close>

lemma replicate_numeral: "replicate (numeral k) x = x # replicate (pred_numeral k) x"
  by (simp add: numeral_eq_Suc)

lemma sort_two: "sort [x, y] = (if x \<le> y then [x, y] else [y, x])" for x y :: string
  by auto

lemma ToLower_examples:
  "ToLower ''X'' = ''x''" "ToLower ''Y'' = ''y''"
  "ToLower ''GET'' = ''get''" "ToLower ''get'' = ''get''" "ToLower ''GeT'' = ''get''"
  "ToLower ''POST'' = ''post''" "ToLower ''post'' = ''post''" "ToLower ''PUT'' = ''put''"
  by code_simp+

lemma ChannelType_examples: "ChannelType adapterX = ''X''" "ChannelType adapterY = ''Y''"
  by (simp_all add: adapterX_def adapterY_def)

lemma handlerPath_examples:
  "handlerPath adapterX ''receive'' = ''/x/:uuid/receive/''"
  "handlerPath adapterY ''status'' = ''/y/:uuid/status/''"
  "handlerPath adapterX ''a'' = ''/x/:uuid/a/''"
  "handlerPath adapterX actionWithTab = ''/x/:uuid/a/'' @ [CHR 0x09] @ ''/''"
  by (simp_all add: handlerPath_def routePath_def ChannelType_examples ToLower_examples
      actionWithTab_def)

lemma helpLine_examples:
  "helpLine adapterX ''receive'' = ''/c/x/:uuid/receive/  - X Adapter receive''"
  "helpLine adapterY ''status'' = ''/c/y/:uuid/status/   - Y Adapter status''"
  "helpLine adapterX ''a'' = ''/c/x/:uuid/a/        - X Adapter a''"
  "helpLine adapterX actionWithTab =
     ''/c/x/:uuid/a/'' @ [CHR 0x09] @ ''/      - X Adapter a/'' @ [CHR 0x09]"
  by (simp_all add: helpLine_def handlerPath_examples routeHelp_def padRight_def replicate_numeral)
     (simp_all add: adapterX_def adapterY_def actionWithTab_def)

lemma AddChannelRoute_get:
  "ToLower method = ''get'' \<Longrightarrow>
   AddChannelRoute s handler method action handlerFunc =
     (None, s\<lparr>chanRouter := chanRouter s @
                 [Handle GET (handlerPath handler action) (ChannelFunction handler handlerFunc)],
               routes := routes s @ [helpLine handler action]\<rparr>)"
  by (simp add: AddChannelRoute_def Let_def handlerPath_def helpLine_def)

lemma AddChannelRoute_post:
  "ToLower method = ''post'' \<Longrightarrow>
   AddChannelRoute s handler method action handlerFunc =
     (None, s\<lparr>chanRouter := chanRouter s @
                 [Handle POST (handlerPath handler action) (ChannelFunction handler handlerFunc)],
               routes := routes s @ [helpLine handler action]\<rparr>)"
  by (simp add: AddChannelRoute_def Let_def handlerPath_def helpLine_def)

lemma pass_YX:
  "initializeChannelHandlers [registeredY, registeredX] Map.empty
       (NewServer exampleConfig exampleBackend) =
     Inr ((NewServer exampleConfig exampleBackend)
            \<lparr>chanRouter := [Handle POST ''/y/:uuid/status/'' (ChannelFunction adapterY accept),
                            Handle GET ''/x/:uuid/receive/'' (ChannelFunction adapterX accept)],
             routes := [helpLine adapterX ''receive'', helpLine adapterY ''status'']\<rparr>,
          [''Y'' \<mapsto> adapterY, ''X'' \<mapsto> adapterX])"
proof -
  have "helpLine adapterX ''receive'' \<le> helpLine adapterY ''status''"
    by (simp add: helpLine_examples)
  then show ?thesis
    by (simp add: initializeChannelHandlers_def registeredX_def registeredY_def
        AddChannelRoute_get AddChannelRoute_post ToLower_examples handlerPath_examples
        activates_def ChannelType_examples sort_two)
      (simp add: NewServer_def exampleConfig_def)
qed



lemma pass_tab:
  "initializeChannelHandlers [registeredTab] Map.empty (NewServer exampleConfig exampleBackend) =
     Inr ((NewServer exampleConfig exampleBackend)
            \<lparr>chanRouter := [Handle GET (handlerPath adapterX ''a'') (ChannelFunction adapterX accept),
                            Handle GET (handlerPath adapterX actionWithTab)
                              (ChannelFunction adapterX accept)],
             routes := [helpLine adapterX actionWithTab, helpLine adapterX ''a'']\<rparr>,
          [''X'' \<mapsto> adapterX])"
proof -
  have "\<not> helpLine adapterX ''a'' \<le> helpLine adapterX actionWithTab"
    by (simp add: helpLine_examples)
  then show ?thesis
    by (simp add: initializeChannelHandlers_def registeredTab_def
        AddChannelRoute_get ToLower_examples activates_def ChannelType_examples sort_two)
      (simp add: NewServer_def exampleConfig_def)
qed

lemma pass_XY:
  assumes "IncludeChannels (config s) = None" and "ExcludeChannels (config s) = None"
    and "routes s = []"
  shows "initializeChannelHandlers [registeredX, registeredY] active s =
     Inr (s\<lparr>chanRouter := chanRouter s @
                 [Handle GET ''/x/:uuid/receive/'' (ChannelFunction adapterX accept),
                  Handle POST ''/y/:uuid/status/'' (ChannelFunction adapterY accept)],
             routes := [helpLine adapterX ''receive'', helpLine adapterY ''status'']\<rparr>,
          active(''X'' \<mapsto> adapterX, ''Y'' \<mapsto> adapterY))"
proof -
  have "helpLine adapterX ''receive'' \<le> helpLine adapterY ''status''"
    by (simp add: helpLine_examples)
  then show ?thesis
    using assms
    by (simp add: initializeChannelHandlers_def registeredX_def registeredY_def
        AddChannelRoute_get AddChannelRoute_post ToLower_examples handlerPath_examples
        activates_def ChannelType_examples sort_two)
qed

lemma Start_example:
  "Start None [registeredX, registeredY] Map.empty (NewServer exampleConfig exampleBackend) =
     \<lparr>ended = Returned None,
      final =
        (\<lparr>backend = exampleBackend,
          httpServer = Some \<lparr>Addr = '':8080'', ReadTimeout = 15, WriteTimeout = 15,
                              inShutdown = False\<rparr>,
          router = [Use ''RequestID'', Use ''RequestLogger'', Use ''Recoverer'', Mount ''/c/'',
                    Handle GET ''/'' HandleIndex],
          chanRouter = [Handle GET ''/x/:uuid/receive/'' (ChannelFunction adapterX accept),
                        Handle POST ''/y/:uuid/status/'' (ChannelFunction adapterY accept)],
          config = exampleConfig,
          stopChan = Open,
          stopped = False,
          routes = [helpLine adapterX ''receive'', helpLine adapterY ''status'']\<rparr>,
         [''X'' \<mapsto> adapterX, ''Y'' \<mapsto> adapterY]),
      performed = [BackendStart, StartSpoolFlushers, GoListenAndServe]\<rparr>"
proof -
  let ?s1 = "(NewServer exampleConfig exampleBackend)
                \<lparr>router := router (NewServer exampleConfig exampleBackend) @ [Handle GET ''/'' HandleIndex]\<rparr>"
  have "IncludeChannels (config ?s1) = None" "ExcludeChannels (config ?s1) = None" "routes ?s1 = []"
    by (simp_all add: NewServer_def exampleConfig_def)
  then have "initializeChannelHandlers [registeredX, registeredY] Map.empty ?s1 =
     Inr (?s1\<lparr>chanRouter := chanRouter ?s1 @
                 [Handle GET ''/x/:uuid/receive/'' (ChannelFunction adapterX accept),
                  Handle POST ''/y/:uuid/status/'' (ChannelFunction adapterY accept)],
             routes := [helpLine adapterX ''receive'', helpLine adapterY ''status'']\<rparr>,
          [''X'' \<mapsto> adapterX, ''Y'' \<mapsto> adapterY])"
    by (rule pass_XY)
  then show ?thesis
    by (simp add: Start_def Let_def)
      (simp add: NewServer_def exampleConfig_def formatInt_def)
qed

lemma startedServer_fields:
  "stopChan startedServer = Open"
  "stopped startedServer = False"
  "httpServer startedServer =
     Some \<lparr>Addr = '':8080'', ReadTimeout = 15, WriteTimeout = 15, inShutdown = False\<rparr>"
  "routes startedServer = [helpLine adapterX ''receive'', helpLine adapterY ''status'']"
  by (simp_all add: startedServer_def Start_example)

lemma Stop_succeeds_example:
  "Stop stopSucceeds startedServer =
     \<lparr>ended = Returned None,
      final = startedServer
        \<lparr>httpServer := Some \<lparr>Addr = '':8080'', ReadTimeout = 15, WriteTimeout = 15,
                              inShutdown = True\<rparr>,
         stopChan := Closed, stopped := True\<rparr>,
      performed = [BackendStop, CloseStopChan, HTTPShutdown, WaitGroupWait]\<rparr>"
  by (simp add: Stop_def stopSucceeds_def startedServer_fields)

subsection \<open>The initialization pass\<close>


lemma initializeChannelHandlers_loop:
  assumes "initializeChannelHandlers regs active s = Inr (s', active')"
  shows "\<exists>t. initializeLoop (IncludeChannels (config s)) (ExcludeChannels (config s)) regs active s
              = Inr (t, active') \<and> s' = t\<lparr>routes := sort (routes t)\<rparr>"
  using assms by (auto simp add: initializeChannelHandlers_def split: sum.splits)


subsection \<open>The order of the listing lines\<close>

text \<open>
  A listing line is the path, then a space. Where no path holds a space or a smaller byte,
  the order of two lines is the order of their paths.
\<close>

lemma padded_order:
  assumes "\<forall>c\<in>set p. CHR '' '' < c" and "\<forall>c\<in>set q. CHR '' '' < c"
    and "p @ CHR '' '' # x \<le> q @ CHR '' '' # y"
  shows "p \<le> q"
  using assms
proof (induction p arbitrary: q)
  case Nil
  then show ?case by simp
next
  case (Cons a p)
  show ?case
  proof (cases q)
    case Nil
    with Cons.prems show ?thesis by auto
  next
    case (Cons b q')
    with Cons.prems Cons.IH[of q'] show ?thesis by auto
  qed
qed

lemma routeHelp_shape:
  "\<exists>x. routeHelp path name action = (''/c'' @ path) @ CHR '' '' # x"
proof (cases "20 - length (''/c'' @ path)")
  case 0
  then show ?thesis by (simp add: routeHelp_def padRight_def)
next
  case (Suc k)
  then show ?thesis by (simp add: routeHelp_def padRight_def)
qed

lemma routeHelp_order:
  assumes "\<forall>c\<in>set p. CHR '' '' < c" and "\<forall>c\<in>set q. CHR '' '' < c"
    and "routeHelp p n a \<le> routeHelp q m b"
  shows "''/c'' @ p \<le> ''/c'' @ q"
proof -
  obtain x where x: "routeHelp p n a = (''/c'' @ p) @ CHR '' '' # x"
    using routeHelp_shape by blast
  obtain y where y: "routeHelp q m b = (''/c'' @ q) @ CHR '' '' # y"
    using routeHelp_shape by blast
  have "\<forall>c\<in>set (''/c'' @ p). CHR '' '' < c" "\<forall>c\<in>set (''/c'' @ q). CHR '' '' < c"
    using assms(1,2) by simp_all
  then show ?thesis using padded_order assms(3) x y by metis
qed

lemma sorted_map_transfer:
  assumes "sorted (map f xs)"
    and "\<And>x y. x \<in> set xs \<Longrightarrow> y \<in> set xs \<Longrightarrow> f x \<le> f y \<Longrightarrow> g x \<le> g y"
  shows "sorted (map g xs)"
  using assms by (induction xs) auto

lemma sorted_lines_sorted_paths:
  assumes "sorted (map (\<lambda>(handler, action). helpLine handler action) listing)"
    and "\<forall>(handler, action)\<in>set listing. \<forall>c\<in>set (handlerPath handler action). CHR '' '' < c"
  shows "sorted (map (\<lambda>(handler, action). ''/c'' @ handlerPath handler action) listing)"
proof (rule sorted_map_transfer[OF assms(1)])
  fix x y
  assume x: "x \<in> set listing" and y: "y \<in> set listing"
    and le: "(case x of (handler, action) \<Rightarrow> helpLine handler action)
              \<le> (case y of (handler, action) \<Rightarrow> helpLine handler action)"
  obtain h a where xe: "x = (h, a)" by (cases x)
  obtain k b where ye: "y = (k, b)" by (cases y)
  have "\<forall>c\<in>set (handlerPath h a). CHR '' '' < c" using assms(2) x xe by auto
  moreover have "\<forall>c\<in>set (handlerPath k b). CHR '' '' < c" using assms(2) y ye by auto
  moreover have "routeHelp (handlerPath h a) (ChannelName h) a
                  \<le> routeHelp (handlerPath k b) (ChannelName k) b"
    using le xe ye by (simp add: helpLine_def)
  ultimately have "''/c'' @ handlerPath h a \<le> ''/c'' @ handlerPath k b"
    by (rule routeHelp_order)
  then show "(case x of (handler, action) \<Rightarrow> ''/c'' @ handlerPath handler action)
              \<le> (case y of (handler, action) \<Rightarrow> ''/c'' @ handlerPath handler action)"
    using xe ye by simp
qed

section \<open>Stop\<close>

text \<open>
  C9. When \<^verbatim>\<open>s.backend.Stop()\<close> returns an error, \<open>Stop\<close> returns that error at once and the
  server is as it was: the stopped flag, the stop channel and the HTTP server are untouched,
  and the only call made is the backend's: no close, no shutdown, no wait.
\<close>

theorem Stop_backend_error_returns_at_once:
  "Stop \<lparr>backendStop = Some err, httpShutdown = sd, waitGroupDrains = w\<rparr> s =
     \<lparr>ended = Returned (Some err), final = s, performed = [BackendStop]\<rparr>"
  by (simp add: Stop_def)

text \<open>
  C1. The claim has \<open>Stop\<close> go on with the shutdown when the backend fails to stop. On the
  started server of the small deployment it does not: the error comes back, the stopped flag
  is still false, the stop channel still open, the HTTP server not in shutdown, and nothing
  but the backend was called.
\<close>

theorem Stop_backend_error_skips_shutdown:
  "ended (Stop stopFails startedServer) = Returned (Some (Error ''backend stop failed'')) \<and>
   stopped (final (Stop stopFails startedServer)) = False \<and>
   stopChan (final (Stop stopFails startedServer)) = Open \<and>
   httpServer (final (Stop stopFails startedServer)) =
     Some \<lparr>Addr = '':8080'', ReadTimeout = 15, WriteTimeout = 15, inShutdown = False\<rparr> \<and>
   performed (Stop stopFails startedServer) = [BackendStop]"
  by (simp add: Stop_def stopFails_def startedServer_fields)

text \<open>
  C2. The claim has \<open>Stop\<close> return only after the wait on the completion counter. After a
  \<open>Start\<close> that launched the serving task, a \<open>Stop\<close> whose backend fails returns without
  ever waiting, whether or not the counter would come to zero.
\<close>

theorem Stop_backend_error_skips_wait:
  "GoListenAndServe \<in> set (performed (Start None [registeredX, registeredY] Map.empty
                                        (NewServer exampleConfig exampleBackend))) \<and>
   ended (Stop stopFails startedServer) = Returned (Some (Error ''backend stop failed'')) \<and>
   WaitGroupWait \<notin> set (performed (Stop stopFails startedServer)) \<and>
   waitGroupDrains stopFails = False"
  by (simp add: Stop_def stopFails_def Start_example)

text \<open>
  C4, as the claim states it: a second \<open>Stop\<close> after a completed one would not close the
  closed channel. It does: the first \<open>Stop\<close> returns, the second panics on the close.
\<close>

theorem second_Stop_panics:
  "ended (Stop stopSucceeds startedServer) = Returned None \<and>
   ended (Stop stopSucceeds (final (Stop stopSucceeds startedServer))) =
     Panicked ''close of closed channel''"
  by (simp add: Stop_succeeds_example) (simp add: Stop_def stopSucceeds_def)

text \<open>
  C4, amended. On a server whose stop channel is still open, a \<open>Stop\<close> closes the channel
  at most once and the close does not panic: the channel is closed exactly once when the
  backend stopped, and not at all when the backend failed. The open channel is the premise:
  \<open>Stop\<close> never reads the stopped flag, and nothing in it guards a later close. What the
  steps after the close do (the shutdown with a nil context may panic) is no part of this.
\<close>

theorem Stop_closes_open_channel_once:
  assumes "stopChan s = Open"
  shows "ended (Stop env s) \<noteq> Panicked ''close of closed channel'' \<and>
         count_list (performed (Stop env s)) CloseStopChan =
           (if backendStop env = None then 1 else 0) \<and>
         stopChan (final (Stop env s)) = (if backendStop env = None then Closed else Open)"
proof (cases "backendStop env")
  case None
  show ?thesis
  proof (cases "httpServer s")
    case n: None
    with None assms show ?thesis by (simp add: Stop_def Let_def)
  next
    case (Some h)
    with None assms show ?thesis
      by (cases "httpShutdown env") (simp_all add: Stop_def Let_def)
  qed
next
  case (Some err)
  with assms show ?thesis by (simp add: Stop_def)
qed

theorem Stop_closes_open_channel_once_witness:
  "stopChan startedServer = Open \<and>
   backendStop stopSucceeds = None \<and>
   ended (Stop stopSucceeds startedServer) \<noteq> Panicked ''close of closed channel'' \<and>
   count_list (performed (Stop stopSucceeds startedServer)) CloseStopChan = 1 \<and>
   stopChan (final (Stop stopSucceeds startedServer)) = Closed \<and>
   ended (Stop (stopSucceeds\<lparr>httpShutdown := ShutdownPanics\<rparr>) startedServer) \<noteq>
     Panicked ''close of closed channel'' \<and>
   count_list (performed (Stop (stopSucceeds\<lparr>httpShutdown := ShutdownPanics\<rparr>) startedServer))
     CloseStopChan = 1"
  using Stop_closes_open_channel_once[OF startedServer_fields(1), of stopSucceeds]
    Stop_closes_open_channel_once[OF startedServer_fields(1),
      of "stopSucceeds\<lparr>httpShutdown := ShutdownPanics\<rparr>"]
  by (simp add: startedServer_fields stopSucceeds_def)

section \<open>Registering routes\<close>

text \<open>
  C6. A method that is neither GET nor POST (\<^verbatim>\<open>AddChannelRoute\<close> compares the lowercased
  method) is refused with the error "unsupported method: ..." and the server is left as it
  was: nothing is added to the channel router, and the route listing and its length are
  unchanged.
\<close>

theorem AddChannelRoute_unsupported_method:
  assumes "ToLower method \<noteq> ''get''" and "ToLower method \<noteq> ''post''"
  shows "AddChannelRoute s handler method action handlerFunc =
           (Some (Error (''unsupported method: '' @ ToLower method)), s) \<and>
         chanRouter (snd (AddChannelRoute s handler method action handlerFunc)) = chanRouter s \<and>
         routes (snd (AddChannelRoute s handler method action handlerFunc)) = routes s \<and>
         length (routes (snd (AddChannelRoute s handler method action handlerFunc))) =
           length (routes s)"
  using assms by (simp add: AddChannelRoute_def)

theorem AddChannelRoute_unsupported_method_witness:
  "ToLower ''PUT'' \<noteq> ''get'' \<and> ToLower ''PUT'' \<noteq> ''post'' \<and>
   AddChannelRoute startedServer adapterX ''PUT'' ''receive'' accept =
     (Some (Error ''unsupported method: put''), startedServer) \<and>
   length (routes (snd (AddChannelRoute startedServer adapterX ''PUT'' ''receive'' accept))) = 2"
proof -
  have m: "ToLower ''PUT'' \<noteq> ''get''" "ToLower ''PUT'' \<noteq> ''post''"
    by (simp_all add: ToLower_examples)
  from AddChannelRoute_unsupported_method[OF m, of startedServer adapterX "''receive''" accept] m
  show ?thesis by (simp add: ToLower_examples startedServer_fields)
qed

text \<open>
  C8. A successful \<^verbatim>\<open>AddChannelRoute\<close> puts one entry on the channel router, under the path
  "/", the lowercased ChannelType, "/:uuid/", the action, "/". The top router is untouched,
  and the channel router is the one \<^verbatim>\<open>NewServer\<close> mounted under "/c/", empty at first.
\<close>

theorem AddChannelRoute_path:
  assumes "AddChannelRoute s handler method action handlerFunc = (None, s')"
  shows "(\<exists>m. chanRouter s' = chanRouter s @
            [Handle m (''/'' @ ToLower (ChannelType handler) @ ''/:uuid/'' @ action @ ''/'')
               (ChannelFunction handler handlerFunc)]) \<and>
         router s' = router s \<and>
         Mount ''/c/'' \<in> set (router (NewServer cfg be)) \<and>
         chanRouter (NewServer cfg be) = []"
  using assms
  by (auto simp add: AddChannelRoute_def routePath_def NewServer_def Let_def split: if_splits)

theorem AddChannelRoute_path_witness:
  "AddChannelRoute (NewServer exampleConfig exampleBackend) adapterX ''GET'' ''receive'' accept =
     (None, (NewServer exampleConfig exampleBackend)
        \<lparr>chanRouter := [Handle GET ''/x/:uuid/receive/'' (ChannelFunction adapterX accept)],
         routes := [helpLine adapterX ''receive'']\<rparr>) \<and>
   router ((NewServer exampleConfig exampleBackend)
        \<lparr>chanRouter := [Handle GET ''/x/:uuid/receive/'' (ChannelFunction adapterX accept)],
         routes := [helpLine adapterX ''receive'']\<rparr>) =
     router (NewServer exampleConfig exampleBackend) \<and>
   Mount ''/c/'' \<in> set (router (NewServer exampleConfig exampleBackend))"
proof -
  have e: "AddChannelRoute (NewServer exampleConfig exampleBackend) adapterX ''GET'' ''receive'' accept =
     (None, (NewServer exampleConfig exampleBackend)
        \<lparr>chanRouter := [Handle GET ''/x/:uuid/receive/'' (ChannelFunction adapterX accept)],
         routes := [helpLine adapterX ''receive'']\<rparr>)"
    by (simp add: AddChannelRoute_get ToLower_examples handlerPath_examples)
      (simp add: NewServer_def)
  from AddChannelRoute_path[OF e, of exampleConfig exampleBackend] e show ?thesis by simp
qed

text \<open>
  C10. \<^verbatim>\<open>AddChannelRoute\<close> lowercases the method before it compares: a method that
  lowercases to "get" registers a GET route, one that lowercases to "post" a POST route, and
  any other is refused with an error that holds the lowercased method. "GET", "get" and
  "GeT" lowercase to "get"; "POST" and "post" to "post".
\<close>

theorem AddChannelRoute_case_insensitive:
  "(ToLower method = ''get'' \<longrightarrow>
      AddChannelRoute s handler method action handlerFunc =
        (None, s\<lparr>chanRouter := chanRouter s @
                    [Handle GET (routePath (ToLower (ChannelType handler)) action)
                       (ChannelFunction handler handlerFunc)],
                  routes := routes s @
                    [routeHelp (routePath (ToLower (ChannelType handler)) action)
                       (ChannelName handler) action]\<rparr>)) \<and>
   (ToLower method = ''post'' \<longrightarrow>
      AddChannelRoute s handler method action handlerFunc =
        (None, s\<lparr>chanRouter := chanRouter s @
                    [Handle POST (routePath (ToLower (ChannelType handler)) action)
                       (ChannelFunction handler handlerFunc)],
                  routes := routes s @
                    [routeHelp (routePath (ToLower (ChannelType handler)) action)
                       (ChannelName handler) action]\<rparr>)) \<and>
   (ToLower method \<noteq> ''get'' \<and> ToLower method \<noteq> ''post'' \<longrightarrow>
      fst (AddChannelRoute s handler method action handlerFunc) =
        Some (Error (''unsupported method: '' @ ToLower method))) \<and>
   ToLower ''GET'' = ''get'' \<and> ToLower ''get'' = ''get'' \<and> ToLower ''GeT'' = ''get'' \<and>
   ToLower ''POST'' = ''post'' \<and> ToLower ''post'' = ''post''"
  by (simp add: AddChannelRoute_def Let_def ToLower_examples)

theorem AddChannelRoute_case_insensitive_witness:
  "AddChannelRoute startedServer adapterX ''GeT'' ''receive'' accept =
     (None, startedServer
        \<lparr>chanRouter := chanRouter startedServer @
           [Handle GET (handlerPath adapterX ''receive'') (ChannelFunction adapterX accept)],
         routes := routes startedServer @ [helpLine adapterX ''receive'']\<rparr>) \<and>
   AddChannelRoute startedServer adapterY ''post'' ''status'' accept =
     (None, startedServer
        \<lparr>chanRouter := chanRouter startedServer @
           [Handle POST (handlerPath adapterY ''status'') (ChannelFunction adapterY accept)],
         routes := routes startedServer @ [helpLine adapterY ''status'']\<rparr>) \<and>
   fst (AddChannelRoute startedServer adapterX ''PUT'' ''receive'' accept) =
     Some (Error ''unsupported method: put'')"
  using AddChannelRoute_case_insensitive[of "''GeT''" startedServer adapterX "''receive''" accept]
    AddChannelRoute_case_insensitive[of "''post''" startedServer adapterY "''status''" accept]
    AddChannelRoute_case_insensitive[of "''PUT''" startedServer adapterX "''receive''" accept]
  by (simp add: ToLower_examples helpLine_def handlerPath_def)

section \<open>Activating the adapters\<close>




section \<open>Serving a channel request\<close>

text \<open>
  C5. Serving a request on a channel route runs the wrapper that \<^verbatim>\<open>AddChannelRoute\<close>
  mounted. The wrapper parses the UUID first and resolves the channel second. When the UUID
  does not parse, it writes that error and nothing else; when the backend does not resolve
  the channel, it writes that error and nothing else; when both succeed, it calls the action
  handler with the resolved channel and the request, and writes the handler's error if there
  is one. The handler is called in that last case only.
\<close>

theorem channelFunctionWrapper_guards:
  "serve NewChannelUUID s (ChannelFunction handler handlerFunc) r =
     channelFunctionWrapper NewChannelUUID s handler handlerFunc r \<and>
   (NewChannelUUID (URLParam r ''uuid'') = Inl err \<longrightarrow>
      channelFunctionWrapper NewChannelUUID s handler handlerFunc r = [WriteError err]) \<and>
   (NewChannelUUID (URLParam r ''uuid'') = Inr uuid \<and>
    GetChannel (backend s) (ChannelType handler) uuid = Inl err \<longrightarrow>
      channelFunctionWrapper NewChannelUUID s handler handlerFunc r = [WriteError err]) \<and>
   (NewChannelUUID (URLParam r ''uuid'') = Inr uuid \<and>
    GetChannel (backend s) (ChannelType handler) uuid = Inr channel \<longrightarrow>
      channelFunctionWrapper NewChannelUUID s handler handlerFunc r =
        HandlerFunc channel r #
          (case handlerFunc channel r of Some e \<Rightarrow> [WriteError e] | None \<Rightarrow> [])) \<and>
   ((\<exists>ch q. HandlerFunc ch q \<in> set (channelFunctionWrapper NewChannelUUID s handler handlerFunc r)) \<longleftrightarrow>
    (\<exists>u ch. NewChannelUUID (URLParam r ''uuid'') = Inr u \<and>
       GetChannel (backend s) (ChannelType handler) u = Inr ch))"
  by (auto simp add: serve_def channelFunctionWrapper_def split: sum.splits option.splits)

theorem channelFunctionWrapper_guards_witness:
  "channelFunctionWrapper exampleNewChannelUUID startedServer adapterX accept malformedRequest =
     [WriteError (Error ''invalid UUID'')] \<and>
   channelFunctionWrapper exampleNewChannelUUID startedServer adapterX accept unknownRequest =
     [WriteError (Error ''channel not found'')] \<and>
   channelFunctionWrapper exampleNewChannelUUID startedServer adapterX accept knownRequest =
     [HandlerFunc ''channel one'' knownRequest]"
proof -
  have b: "backend startedServer = exampleBackend"
    by (simp add: startedServer_def Start_example)
  have p: "exampleNewChannelUUID (URLParam malformedRequest ''uuid'') = Inl (Error ''invalid UUID'')"
    "exampleNewChannelUUID (URLParam unknownRequest ''uuid'') = Inr (ChannelUUID ''00000000'')"
    "exampleNewChannelUUID (URLParam knownRequest ''uuid'') = Inr (ChannelUUID ''dbc126ed'')"
    by (simp_all add: exampleNewChannelUUID_def URLParam_def malformedRequest_def
        unknownRequest_def knownRequest_def)
  have g: "GetChannel (backend startedServer) (ChannelType adapterX) (ChannelUUID ''00000000'') =
             Inl (Error ''channel not found'')"
    "GetChannel (backend startedServer) (ChannelType adapterX) (ChannelUUID ''dbc126ed'') =
             Inr ''channel one''"
    by (simp_all add: b exampleBackend_def ChannelType_examples)
  from channelFunctionWrapper_guards[where NewChannelUUID = exampleNewChannelUUID
      and r = malformedRequest and err = "Error ''invalid UUID''" and s = startedServer
      and handler = adapterX and handlerFunc = accept]
    channelFunctionWrapper_guards[where NewChannelUUID = exampleNewChannelUUID
      and r = unknownRequest and err = "Error ''channel not found''" and s = startedServer
      and handler = adapterX and handlerFunc = accept and uuid = "ChannelUUID ''00000000''"]
    channelFunctionWrapper_guards[where NewChannelUUID = exampleNewChannelUUID
      and r = knownRequest and s = startedServer and handler = adapterX
      and handlerFunc = accept and uuid = "ChannelUUID ''dbc126ed''"
      and channel = "''channel one''"]
    p g
  show ?thesis by (simp add: accept_def)
qed

section \<open>The route listing of the index page\<close>

text \<open>
  C7, as the claim states it: the listing would be in the order of the paths. The pass sorts
  the listing lines, and a line is the path padded with spaces. An adapter with the actions
  "a" and "a/" followed by a tab has the paths /c/x/:uuid/a/ and /c/x/:uuid/a/ followed by
  a tab and a slash; the second line comes first in the listing, the tab being smaller than
  the space that follows the first path, while the first path is the smaller one.
\<close>

theorem listing_not_in_path_order:
  "initializeChannelHandlers [registeredTab] Map.empty (NewServer exampleConfig exampleBackend) =
     Inr ((NewServer exampleConfig exampleBackend)
            \<lparr>chanRouter := [Handle GET (handlerPath adapterX ''a'') (ChannelFunction adapterX accept),
                            Handle GET (handlerPath adapterX actionWithTab)
                              (ChannelFunction adapterX accept)],
             routes := [helpLine adapterX actionWithTab, helpLine adapterX ''a'']\<rparr>,
          [''X'' \<mapsto> adapterX]) \<and>
   \<not> sorted [''/c'' @ handlerPath adapterX actionWithTab, ''/c'' @ handlerPath adapterX ''a'']"
  using pass_tab by (simp add: handlerPath_examples)

text \<open>
  C7, amended. When the pass returns, the route listing is the listing the hooks built,
  sorted: its lines are in lexicographic (bytewise) order as whole lines, whatever the order
  of registration, and the index page shows them in that order, joined by newlines. Where
  the lines are those of the routes in \<open>listing\<close> and no path holds a space or a smaller
  byte, the paths are in lexicographic order too.
\<close>

theorem route_listing_sorted:
  assumes "initializeChannelHandlers regs active s = Inr (s', active')"
  shows "sorted (routes s') \<and>
         (\<exists>t. initializeLoop (IncludeChannels (config s)) (ExcludeChannels (config s)) regs active s
                = Inr (t, active') \<and> routes s' = sort (routes t)) \<and>
         handleIndex s' r =
           [Write (''<title>courier</title><body><pre>'' @ [CHR 0x0A] @ splash @ Version (config s')
                   @ Health (backend s') @ [CHR 0x0A, CHR 0x0A] @ Join (routes s') [CHR 0x0A]
                   @ ''</pre></body>'')] \<and>
         (\<forall>listing.
            routes s' = map (\<lambda>(handler, action). helpLine handler action) listing \<and>
            (\<forall>(handler, action)\<in>set listing. \<forall>c\<in>set (handlerPath handler action). CHR '' '' < c) \<longrightarrow>
            sorted (map (\<lambda>(handler, action). ''/c'' @ handlerPath handler action) listing))"
proof -
  obtain t where t: "initializeLoop (IncludeChannels (config s)) (ExcludeChannels (config s))
      regs active s = Inr (t, active')" and s': "s' = t\<lparr>routes := sort (routes t)\<rparr>"
    using initializeChannelHandlers_loop[OF assms] by blast
  have a: "sorted (routes s')" using s' by simp
  have b: "routes s' = sort (routes t)" using s' by simp
  have c: "\<forall>listing.
            routes s' = map (\<lambda>(handler, action). helpLine handler action) listing \<and>
            (\<forall>(handler, action)\<in>set listing. \<forall>c\<in>set (handlerPath handler action). CHR '' '' < c) \<longrightarrow>
            sorted (map (\<lambda>(handler, action). ''/c'' @ handlerPath handler action) listing)"
  proof (intro allI impI)
    fix listing :: "(ChannelHandler \<times> string) list"
    assume h: "routes s' = map (\<lambda>(handler, action). helpLine handler action) listing \<and>
            (\<forall>(handler, action)\<in>set listing. \<forall>c\<in>set (handlerPath handler action). CHR '' '' < c)"
    from h a have "sorted (map (\<lambda>(handler, action). helpLine handler action) listing)" by simp
    moreover from h have "\<forall>(handler, action)\<in>set listing.
        \<forall>c\<in>set (handlerPath handler action). CHR '' '' < c"
      by (rule conjunct2)
    ultimately show "sorted (map (\<lambda>(handler, action). ''/c'' @ handlerPath handler action) listing)"
      by (rule sorted_lines_sorted_paths)
  qed
  show ?thesis using a b c t by (simp add: handleIndex_def)
qed

theorem route_listing_sorted_witness:
  "initializeChannelHandlers [registeredY, registeredX] Map.empty
       (NewServer exampleConfig exampleBackend) =
     Inr ((NewServer exampleConfig exampleBackend)
            \<lparr>chanRouter := [Handle POST ''/y/:uuid/status/'' (ChannelFunction adapterY accept),
                            Handle GET ''/x/:uuid/receive/'' (ChannelFunction adapterX accept)],
             routes := [helpLine adapterX ''receive'', helpLine adapterY ''status'']\<rparr>,
          [''Y'' \<mapsto> adapterY, ''X'' \<mapsto> adapterX]) \<and>
   sorted [helpLine adapterX ''receive'', helpLine adapterY ''status''] \<and>
   sorted [''/c/x/:uuid/receive/'', ''/c/y/:uuid/status/'']"
proof -
  let ?s' = "(NewServer exampleConfig exampleBackend)
            \<lparr>chanRouter := [Handle POST ''/y/:uuid/status/'' (ChannelFunction adapterY accept),
                            Handle GET ''/x/:uuid/receive/'' (ChannelFunction adapterX accept)],
             routes := [helpLine adapterX ''receive'', helpLine adapterY ''status'']\<rparr>"
  let ?listing = "[(adapterX, ''receive''), (adapterY, ''status'')]"
  note th = route_listing_sorted[OF pass_YX, of "\<lparr>URLParams = Map.empty\<rparr>"]
  from th have s: "sorted (routes ?s')" by (rule conjunct1)
  from th have "routes ?s' = map (\<lambda>(handler, action). helpLine handler action) ?listing \<and>
            (\<forall>(handler, action)\<in>set ?listing. \<forall>c\<in>set (handlerPath handler action). CHR '' '' < c) \<longrightarrow>
            sorted (map (\<lambda>(handler, action). ''/c'' @ handlerPath handler action) ?listing)"
    by blast
  then have p: "sorted (map (\<lambda>(handler, action). ''/c'' @ handlerPath handler action) ?listing)"
    by (simp add: handlerPath_examples)
  from s p pass_YX show ?thesis by (simp add: handlerPath_examples)
qed

end
